theory Spec2Isabelle
  imports Complex_Main
begin

section \<open>Address Validator\<close>

text \<open>
  \<^verbatim>\<open>
  function isPotentiallySolanaAddress(str) {
      return /^[1-9A-HJ-NP-Za-km-z]{32,44}$/.test(str);
  }
  \<close>
  The regular expression is kept as data: a character class is a list of inclusive
  ranges, compared by character code as the regular expression engine does, and the
  anchored bounded repetition \<^verbatim>\<open>^[class]{lo,hi}$\<close> is matched by walking the
  whole string. A string is a list of 8-bit characters; a code unit beyond that range is
  outside every range of the class, as every other character that is not in it.
\<close>

type_synonym char_class = "(char \<times> char) list"

definition in_range :: "char \<Rightarrow> char \<times> char \<Rightarrow> bool" where
  "in_range c r = ((of_char (fst r) :: nat) \<le> of_char c \<and> (of_char c :: nat) \<le> of_char (snd r))"

definition in_class :: "char_class \<Rightarrow> char \<Rightarrow> bool" where
  "in_class cls c = list_ex (in_range c) cls"

fun matches_repeat :: "char_class \<Rightarrow> nat \<Rightarrow> nat \<Rightarrow> string \<Rightarrow> bool" where
  "matches_repeat cls lo hi [] = (lo = 0)"
| "matches_repeat cls lo hi (c # cs) =
     (0 < hi \<and> in_class cls c \<and> matches_repeat cls (lo - 1) (hi - 1) cs)"

definition address_class :: char_class where
  "address_class =
     [(CHR ''1'', CHR ''9''), (CHR ''A'', CHR ''H''), (CHR ''J'', CHR ''N''),
      (CHR ''P'', CHR ''Z''), (CHR ''a'', CHR ''k''), (CHR ''m'', CHR ''z'')]"

definition isPotentiallySolanaAddress :: "string \<Rightarrow> bool" where
  "isPotentiallySolanaAddress str = matches_repeat address_class 32 44 str"

text \<open>
  The specification's reading of the pattern: the base-58 alphabet is the digits and
  letters without \<^verbatim>\<open>0\<close>, \<^verbatim>\<open>O\<close>, \<^verbatim>\<open>I\<close> and \<^verbatim>\<open>l\<close>, and the length is
  between 32 and 44, both included.
\<close>

definition alphanumerics :: string where
  "alphanumerics =
     ''0123456789ABCDEFGHIJKLMNOPQRSTUVWXYZabcdefghijklmnopqrstuvwxyz''"

definition base58_alphabet :: string where
  "base58_alphabet = filter (\<lambda>c. c \<notin> set ''0OIl'') alphanumerics"

definition spec_valid_address :: "string \<Rightarrow> bool" where
  "spec_valid_address s =
     (32 \<le> length s \<and> length s \<le> 44 \<and> list_all (\<lambda>c. c \<in> set base58_alphabet) s)"

section \<open>JavaScript values, errors and the outside world\<close>

text \<open>
  Request bodies are JSON, and the handlers test their fields for truthiness, so the
  values are modelled as JavaScript has them. \<open>JUndefined\<close> is an absent field.
  A \<open>JNum\<close> holds a rational: the decimal a number was written as in a request, or
  the result of an arithmetic operation. The language holds every number as an IEEE-754
  double, so arithmetic takes each operand as the double nearest to it and rounds its
  result to a double. \<open>JNaN\<close> is the result of arithmetic on a value that is not a
  number.
\<close>

datatype jsval =
    JUndefined
  | JNull
  | JBool bool
  | JNum rat
  | JNaN
  | JStr string
  | JArr "jsval list"
  | JObj "(string \<times> jsval) list"

fun js_truthy :: "jsval \<Rightarrow> bool" where
  "js_truthy JUndefined = False"
| "js_truthy JNull = False"
| "js_truthy (JBool b) = b"
| "js_truthy (JNum x) = (x \<noteq> 0)"
| "js_truthy JNaN = False"
| "js_truthy (JStr s) = (s \<noteq> [])"
| "js_truthy (JArr xs) = True"
| "js_truthy (JObj kvs) = True"

text \<open>A thrown value is an error object, of which the handlers read \<^verbatim>\<open>message\<close>.\<close>

datatype js_error = JsError (err_name: string) (message: string)

definition new_Error :: "string \<Rightarrow> js_error" where
  "new_Error msg = JsError ''Error'' msg"

text \<open>A \<^verbatim>\<open>PublicKey\<close> object, seen through its \<^verbatim>\<open>toString()\<close>.\<close>

datatype pubkey = PubKey (pk_toString: string)

text \<open>
  Everything a handler does to the outside world is recorded, in order, in a trace:
  the three ledger RPC calls, the two calls of the text-completion capability, and the
  waits (\<^verbatim>\<open>setTimeout\<close>, in milliseconds).
\<close>

datatype event =
    RpcGetBalance pubkey
  | RpcRequestAirdrop pubkey jsval
  | RpcConfirmTransaction string
  | Delay nat
  | LlmInvoke string
  | LlmRepair string

fun is_rpc :: "event \<Rightarrow> bool" where
  "is_rpc (RpcGetBalance pk) = True"
| "is_rpc (RpcRequestAirdrop pk lamports) = True"
| "is_rpc (RpcConfirmTransaction sig) = True"
| "is_rpc (Delay ms) = False"
| "is_rpc (LlmInvoke prompt) = False"
| "is_rpc (LlmRepair text) = False"

definition rpc_calls :: "event list \<Rightarrow> event list" where
  "rpc_calls tr = filter is_rpc tr"

fun is_getBalance :: "event \<Rightarrow> bool" where
  "is_getBalance (RpcGetBalance pk) = True"
| "is_getBalance e = False"

fun delays :: "event list \<Rightarrow> nat list" where
  "delays [] = []"
| "delays (Delay ms # tr) = ms # delays tr"
| "delays (e # tr) = delays tr"

fun repairs :: "event list \<Rightarrow> string list" where
  "repairs [] = []"
| "repairs (LlmRepair text # tr) = text # repairs tr"
| "repairs (e # tr) = repairs tr"

text \<open>The parsed intent: three string fields, as the structured output parser declares them.\<close>

record intent =
  action :: string
  publicKey :: string
  needsAddress :: string

text \<open>
  The libraries and remote services the handlers call are parameters. A remote call
  is a function of the trace so far (a stub may answer differently on each attempt) and
  of its arguments, and either throws (\<open>Inl\<close>) or returns (\<open>Inr\<close>):
  \<^item> \<open>PublicKey_new\<close>: \<^verbatim>\<open>new PublicKey(x)\<close> of the ledger library;
  \<^item> \<open>ToNumber_other\<close>: the language's conversion to a number of a string, an array or
    an object, left open;
  \<^item> \<open>to_double\<close>: the IEEE-754 double nearest to a rational (round to nearest, ties
    to even), as the language rounds every number it reads and every arithmetic result;
    an overflow to an infinity is not modelled;
  \<^item> \<open>JSON_stringify\<close>: \<^verbatim>\<open>JSON.stringify\<close>;
  \<^item> \<open>connection_getBalance\<close>, \<open>connection_requestAirdrop\<close>,
    \<open>connection_confirmTransaction\<close>: the ledger RPC; the last one gives the
    \<^verbatim>\<open>value.err\<close> of the confirmation;
  \<^item> \<open>promptTemplate_format\<close>, \<open>model_invoke\<close> (giving the \<^verbatim>\<open>content\<close> of the
    completion), \<open>parser_parse\<close> (the structured output parser) and \<open>repair_invoke\<close>
    (the completion that is asked to repair a text the parser refused).
\<close>

record env =
  PublicKey_new :: "jsval \<Rightarrow> js_error + pubkey"
  ToNumber_other :: "jsval \<Rightarrow> jsval"
  to_double :: "rat \<Rightarrow> rat"
  JSON_stringify :: "jsval \<Rightarrow> string"
  connection_getBalance :: "event list \<Rightarrow> pubkey \<Rightarrow> js_error + int"
  connection_requestAirdrop :: "event list \<Rightarrow> pubkey \<Rightarrow> jsval \<Rightarrow> js_error + string"
  connection_confirmTransaction :: "event list \<Rightarrow> string \<Rightarrow> js_error + jsval"
  promptTemplate_format :: "jsval \<Rightarrow> js_error + string"
  model_invoke :: "event list \<Rightarrow> string \<Rightarrow> js_error + string"
  parser_parse :: "string \<Rightarrow> js_error + intent"
  repair_invoke :: "event list \<Rightarrow> string \<Rightarrow> js_error \<Rightarrow> js_error + string"

subsection \<open>Arithmetic on JavaScript values\<close>

fun toNumber :: "env \<Rightarrow> jsval \<Rightarrow> jsval" where
  "toNumber E JUndefined = JNaN"
| "toNumber E JNull = JNum 0"
| "toNumber E (JBool b) = JNum (if b then 1 else 0)"
| "toNumber E (JNum x) = JNum x"
| "toNumber E JNaN = JNaN"
| "toNumber E v = ToNumber_other E v"

fun num_binop :: "env \<Rightarrow> (rat \<Rightarrow> rat \<Rightarrow> rat) \<Rightarrow> jsval \<Rightarrow> jsval \<Rightarrow> jsval" where
  "num_binop E f (JNum x) (JNum y) = JNum (to_double E (f (to_double E x) (to_double E y)))"
| "num_binop E f a b = JNaN"

definition js_mul :: "env \<Rightarrow> jsval \<Rightarrow> jsval \<Rightarrow> jsval" where
  "js_mul E a b = num_binop E (\<lambda>x y. x * y) (toNumber E a) (toNumber E b)"

definition js_sub :: "env \<Rightarrow> jsval \<Rightarrow> jsval \<Rightarrow> jsval" where
  "js_sub E a b = num_binop E (\<lambda>x y. x - y) (toNumber E a) (toNumber E b)"

text \<open>Division is only ever by the constant \<open>10^9\<close>; a zero divisor is not modelled.\<close>

definition js_div :: "env \<Rightarrow> jsval \<Rightarrow> jsval \<Rightarrow> jsval" where
  "js_div E a b = num_binop E (\<lambda>x y. x / y) (toNumber E a) (toNumber E b)"

text \<open>
  Modelled from the spec: the constant \<^verbatim>\<open>LAMPORTS_PER_SOL\<close> is imported from the
  ledger library, which is not part of the sources; the glossary gives
  \<open>10^9\<close> lamports to one unit of currency.
\<close>

definition LAMPORTS_PER_SOL :: rat where
  "LAMPORTS_PER_SOL = 1000000000"

text \<open>
  \<^verbatim>\<open>
  const lamportsToSol = (lamports) => {
      return lamports / LAMPORTS_PER_SOL;
  };
  \<close>
\<close>

definition lamportsToSol :: "env \<Rightarrow> jsval \<Rightarrow> jsval" where
  "lamportsToSol E lamports = js_div E lamports (JNum LAMPORTS_PER_SOL)"

section \<open>Retrying RPC Client\<close>

text \<open>
  \<^verbatim>\<open>
  async function getBalanceWithRetry(publicKey, maxRetries = 5) {
      for (let i = 0; i < maxRetries; i++) {
          try {
              const balance = await connection.getBalance(publicKey, 'confirmed');
              return balance;
          } catch (error) {
              if (i === maxRetries - 1) throw error;
              await new Promise(resolve => setTimeout(resolve, 1000));
          }
      }
  }
  \<close>
  The same function stands in both source files. The loop is a recursion on \<open>i\<close>; a
  loop that ends without returning gives \<^verbatim>\<open>undefined\<close>.
\<close>

function getBalanceWithRetry_loop ::
  "env \<Rightarrow> pubkey \<Rightarrow> nat \<Rightarrow> nat \<Rightarrow> event list \<Rightarrow> (js_error + jsval) \<times> event list" where
  "getBalanceWithRetry_loop E pk maxRetries i tr =
     (if i < maxRetries then
        (case connection_getBalance E tr pk of
           Inr balance \<Rightarrow> (Inr (JNum (of_int balance)), tr @ [RpcGetBalance pk])
         | Inl error \<Rightarrow>
             if i = maxRetries - 1 then (Inl error, tr @ [RpcGetBalance pk])
             else getBalanceWithRetry_loop E pk maxRetries (i + 1)
                    (tr @ [RpcGetBalance pk, Delay 1000]))
      else (Inr JUndefined, tr))"
  by pat_completeness auto
termination
  by (relation "measure (\<lambda>(E, pk, maxRetries, i, tr). maxRetries - i)") auto

declare getBalanceWithRetry_loop.simps [simp del]

text \<open>Every caller leaves \<^verbatim>\<open>maxRetries\<close> at its default.\<close>

definition getBalanceWithRetry ::
  "env \<Rightarrow> pubkey \<Rightarrow> event list \<Rightarrow> (js_error + jsval) \<times> event list" where
  "getBalanceWithRetry E pk tr = getBalanceWithRetry_loop E pk 5 0 tr"

text \<open>The events of \<open>k\<close> failed attempts, each followed by its wait.\<close>

definition failed_attempts :: "pubkey \<Rightarrow> nat \<Rightarrow> event list" where
  "failed_attempts pk k = concat (replicate k [RpcGetBalance pk, Delay 1000])"

section \<open>REST endpoints\<close>

text \<open>
  A response is the status code and the JSON body, field by field in the order of the
  source. \<^verbatim>\<open>res.json(x)\<close> without a status is a 200. Writing to the console is
  not modelled.
\<close>

datatype response = Response (status_code: nat) (body: "(string \<times> jsval) list")




definition missing_parameters :: response where
  "missing_parameters =
     Response 400 [(''error'', JStr ''Missing required parameters''),
                   (''details'', JStr ''Both publicKey and amount are required'')]"

definition airdrop_failed :: "js_error \<Rightarrow> response" where
  "airdrop_failed error =
     Response 500 [(''error'', JStr ''Airdrop failed''),
                   (''details'', JStr (message error))]"

text \<open>
  The confirmation block of the airdrop handler, with its own \<^verbatim>\<open>try\<close>:
  \<^verbatim>\<open>
  try {
      const confirmation = await connection.confirmTransaction(signature, 'confirmed');
      if (confirmation.value.err) {
          throw new Error('Transaction failed: ' + JSON.stringify(confirmation.value.err));
      }
  } catch (error) {
      throw new Error('Transaction confirmation failed: ' + error.message);
  }
  \<close>
\<close>

definition confirm_step ::
  "env \<Rightarrow> string \<Rightarrow> event list \<Rightarrow> (js_error + unit) \<times> event list" where
  "confirm_step E signature tr =
     (let attempt =
        (case connection_confirmTransaction E tr signature of
           Inl error \<Rightarrow> Inl error
         | Inr err \<Rightarrow>
             if js_truthy err
             then Inl (new_Error (''Transaction failed: '' @ JSON_stringify E err))
             else Inr ())
      in case attempt of
           Inl error \<Rightarrow>
             (Inl (new_Error (''Transaction confirmation failed: '' @ message error)),
              tr @ [RpcConfirmTransaction signature])
         | Inr u \<Rightarrow> (Inr u, tr @ [RpcConfirmTransaction signature]))"

definition airdrop_success ::
  "env \<Rightarrow> pubkey \<Rightarrow> string \<Rightarrow> jsval \<Rightarrow> jsval \<Rightarrow> jsval \<Rightarrow> response" where
  "airdrop_success E address signature amount initialBalance newBalance =
     (let balanceChange = js_sub E newBalance initialBalance in
      Response 200
        [(''publicKey'', JStr (pk_toString address)),
         (''signature'', JStr signature),
         (''requestedAmount'', amount),
         (''initialBalanceSOL'', lamportsToSol E initialBalance),
         (''newBalanceSOL'', lamportsToSol E newBalance),
         (''actualChangeSOL'', lamportsToSol E balanceChange),
         (''message'', JStr ''Airdrop successful''),
         (''status'', JStr ''confirmed'')])"

text \<open>
  \<^verbatim>\<open>app.post('/api/wallet/airdrop')\<close>, on the two fields of the request body. Every
  throw inside the handler reaches the outer \<^verbatim>\<open>catch\<close>, which answers 500.
\<close>

definition wallet_airdrop ::
  "env \<Rightarrow> jsval \<Rightarrow> jsval \<Rightarrow> event list \<Rightarrow> response \<times> event list" where
  "wallet_airdrop E pubKey amount tr =
     (if \<not> js_truthy pubKey \<or> \<not> js_truthy amount then (missing_parameters, tr)
      else
        (case PublicKey_new E pubKey of
           Inl error \<Rightarrow> (airdrop_failed error, tr)
         | Inr address \<Rightarrow>
             (let lamports = js_mul E amount (JNum LAMPORTS_PER_SOL) in
              case getBalanceWithRetry E address tr of
                (Inl error, tr1) \<Rightarrow> (airdrop_failed error, tr1)
              | (Inr initialBalance, tr1) \<Rightarrow>
                  (case connection_requestAirdrop E tr1 address lamports of
                     Inl error \<Rightarrow>
                       (airdrop_failed error, tr1 @ [RpcRequestAirdrop address lamports])
                   | Inr signature \<Rightarrow>
                       (case confirm_step E signature
                               (tr1 @ [RpcRequestAirdrop address lamports]) of
                          (Inl error, tr3) \<Rightarrow> (airdrop_failed error, tr3)
                        | (Inr u, tr3) \<Rightarrow>
                            (case getBalanceWithRetry E address (tr3 @ [Delay 2000]) of
                               (Inl error, tr5) \<Rightarrow> (airdrop_failed error, tr5)
                             | (Inr newBalance, tr5) \<Rightarrow>
                                 (airdrop_success E address signature amount
                                    initialBalance newBalance, tr5)))))))"

section \<open>Natural-language balance flow\<close>

text \<open>
  Modelled from the spec: \<^verbatim>\<open>fixingParser.parse\<close> is the output-fixing parser of the
  language-model library, which is not part of the sources; the handler only builds it
  from the model and the structured parser and calls it once. Following the Intent
  Extractor's description: parse the raw text against the schema; on a parse failure,
  resubmit the malformed text with the schema (and the parse error) to the completion
  capability for self-correction, once, and parse what comes back; a failure of the
  repair call or of the second parse is the failure of the whole.
\<close>

definition fixingParser_parse ::
  "env \<Rightarrow> string \<Rightarrow> event list \<Rightarrow> (js_error + intent) \<times> event list" where
  "fixingParser_parse E text tr =
     (case parser_parse E text of
        Inr parsed \<Rightarrow> (Inr parsed, tr)
      | Inl parseError \<Rightarrow>
          (case repair_invoke E tr text parseError of
             Inl error \<Rightarrow> (Inl error, tr @ [LlmRepair text])
           | Inr newText \<Rightarrow>
               (case parser_parse E newText of
                  Inr parsed \<Rightarrow> (Inr parsed, tr @ [LlmRepair text])
                | Inl error \<Rightarrow> (Inl error, tr @ [LlmRepair text]))))"

text \<open>
  The Intent Extractor inside the handler:
  \<^verbatim>\<open>
  const promptValue = await promptTemplate.format({ query: query });
  const llmResponse = await model.invoke(promptValue);
  const llmResponseText = llmResponse.content;
  const parsedResponse = await fixingParser.parse(llmResponseText);
  \<close>
\<close>

definition extract_intent ::
  "env \<Rightarrow> jsval \<Rightarrow> event list \<Rightarrow> (js_error + intent) \<times> event list" where
  "extract_intent E query tr =
     (case promptTemplate_format E query of
        Inl error \<Rightarrow> (Inl error, tr)
      | Inr promptValue \<Rightarrow>
          (case model_invoke E tr promptValue of
             Inl error \<Rightarrow> (Inl error, tr @ [LlmInvoke promptValue])
           | Inr llmResponseText \<Rightarrow>
               fixingParser_parse E llmResponseText (tr @ [LlmInvoke promptValue])))"

definition missing_query :: response where
  "missing_query =
     Response 400 [(''error'', JStr ''Missing query parameter''),
                   (''message'', JStr ''Please provide a natural language query'')]"

definition processing_failed :: "js_error \<Rightarrow> response" where
  "processing_failed error =
     Response 500 [(''error'', JStr ''Processing failed''),
                   (''message'', JStr (message error))]"

definition needs_address :: response where
  "needs_address =
     Response 200
       [(''status'', JStr ''needs_address''),
        (''message'', JStr ''Please provide a Solana wallet address to check the balance'')]"

definition invalid_address_format :: response where
  "invalid_address_format =
     Response 400
       [(''error'', JStr ''Invalid address format''),
        (''message'',
         JStr ''The provided address does not appear to be a valid Solana address'')]"

definition balance_fetch_failed :: "js_error \<Rightarrow> response" where
  "balance_fetch_failed error =
     Response 400 [(''error'', JStr ''Balance fetch failed''),
                   (''message'', JStr (message error))]"

definition balance_success :: "env \<Rightarrow> pubkey \<Rightarrow> jsval \<Rightarrow> response" where
  "balance_success E pk balance =
     Response 200
       [(''status'', JStr ''success''),
        (''publicKey'', JStr (pk_toString pk)),
        (''balanceInLamports'', balance),
        (''balanceInSOL'', js_div E balance (JNum 1000000000)),
        (''message'', JStr ''Balance fetched successfully'')]"

text \<open>
  What the handler does with the parsed intent, from the \<^verbatim>\<open>needsAddress\<close> test to
  its end. The balance is fetched inside an inner \<^verbatim>\<open>try\<close>, whose \<^verbatim>\<open>catch\<close>
  answers 400:
  \<^verbatim>\<open>
  if (parsedResponse.needsAddress === 'true' || parsedResponse.publicKey === 'none') {
      return res.json({ status: 'needs_address', message: ... });
  }
  if (!isPotentiallySolanaAddress(parsedResponse.publicKey)) {
      return res.status(400).json({ error: 'Invalid address format', message: ... });
  }
  try {
      const publicKey = new PublicKey(parsedResponse.publicKey);
      const balance = await getBalanceWithRetry(publicKey);
      res.json({ status: 'success', ... });
  } catch (error) {
      res.status(400).json({ error: 'Balance fetch failed', message: error.message });
  }
  \<close>
\<close>

definition dispatch_intent ::
  "env \<Rightarrow> intent \<Rightarrow> event list \<Rightarrow> response \<times> event list" where
  "dispatch_intent E parsedResponse tr =
     (if needsAddress parsedResponse = ''true'' \<or> publicKey parsedResponse = ''none''
      then (needs_address, tr)
      else if \<not> isPotentiallySolanaAddress (publicKey parsedResponse)
      then (invalid_address_format, tr)
      else
        (case PublicKey_new E (JStr (publicKey parsedResponse)) of
           Inl error \<Rightarrow> (balance_fetch_failed error, tr)
         | Inr pk \<Rightarrow>
             (case getBalanceWithRetry E pk tr of
                (Inl error, tr2) \<Rightarrow> (balance_fetch_failed error, tr2)
              | (Inr balance, tr2) \<Rightarrow> (balance_success E pk balance, tr2))))"

text \<open>
  \<^verbatim>\<open>app.post('/api/natural/balance')\<close> of \<^verbatim>\<open>handleBalanceQuery\<close>, on the
  \<^verbatim>\<open>query\<close> field of the request body: the guard on the query, the Intent
  Extractor, and the dispatch on its result. A throw of the extractor reaches the outer
  \<^verbatim>\<open>catch\<close>, which answers 500.
\<close>

definition handleBalanceQuery ::
  "env \<Rightarrow> jsval \<Rightarrow> event list \<Rightarrow> response \<times> event list" where
  "handleBalanceQuery E query tr =
     (if \<not> js_truthy query then (missing_query, tr)
      else
        (case extract_intent E query tr of
           (Inl error, tr1) \<Rightarrow> (processing_failed error, tr1)
         | (Inr parsedResponse, tr1) \<Rightarrow> dispatch_intent E parsedResponse tr1))"

section \<open>The invariant of an address\<close>


section \<open>Test doubles\<close>

text \<open>
  A concrete outside world, on which the theorems below are run. The public-key
  constructor accepts the text of the system program's address and nothing else, the
  ledger holds nothing until an airdrop has been requested and one unit after, the
  completion is never parseable and its repair is. Numbers are left as they are: the
  runs below compute with 0, 1 and \<open>10^9\<close> only, which are doubles.
\<close>

definition system_program :: string where
  "system_program = ''11111111111111111111111111111111''"

definition invalid_public_key :: js_error where
  "invalid_public_key = new_Error ''Invalid public key input''"

fun stub_PublicKey :: "jsval \<Rightarrow> js_error + pubkey" where
  "stub_PublicKey (JStr s) =
     (if s = system_program then Inr (PubKey s) else Inl invalid_public_key)"
| "stub_PublicKey v = Inl invalid_public_key"

fun is_airdrop :: "event \<Rightarrow> bool" where
  "is_airdrop (RpcRequestAirdrop pk lamports) = True"
| "is_airdrop e = False"

definition stub_intent :: intent where
  "stub_intent =
     \<lparr>action = ''get_balance'', publicKey = system_program, needsAddress = ''false''\<rparr>"

definition stub_env :: env where
  "stub_env =
     \<lparr>PublicKey_new = stub_PublicKey,
      ToNumber_other = (\<lambda>v. JNaN),
      to_double = (\<lambda>x. x),
      JSON_stringify = (\<lambda>v. ''AccountInUse''),
      connection_getBalance = (\<lambda>tr pk. Inr (if list_ex is_airdrop tr then 1000000000 else 0)),
      connection_requestAirdrop = (\<lambda>tr pk lamports. Inr ''sig1''),
      connection_confirmTransaction = (\<lambda>tr signature. Inr JNull),
      promptTemplate_format = (\<lambda>query. Inr ''prompt''),
      model_invoke = (\<lambda>tr prompt. Inr ''raw''),
      parser_parse =
        (\<lambda>text. if text = ''fixed'' then Inr stub_intent
                else Inl (new_Error ''Failed to parse'')),
      repair_invoke = (\<lambda>tr text error. Inr ''fixed'')\<rparr>"

text \<open>A ledger whose balance read fails on each attempt, the fifth with its own message.\<close>

definition down_env :: env where
  "down_env =
     stub_env\<lparr>connection_getBalance :=
       (\<lambda>tr pk. Inl (new_Error (if length tr = 8 then ''fifth'' else ''earlier'')))\<rparr>"

text \<open>A ledger whose balance read fails four times and then answers 42.\<close>

definition flaky_env :: env where
  "flaky_env =
     stub_env\<lparr>connection_getBalance :=
       (\<lambda>tr pk. if length (filter is_getBalance tr) < 4 then Inl (new_Error ''timeout'')
                else Inr 42)\<rparr>"

text \<open>A ledger that confirms the airdrop with a transaction-level error.\<close>

definition rejecting_env :: env where
  "rejecting_env =
     stub_env\<lparr>connection_confirmTransaction :=
       (\<lambda>tr signature. Inr (JStr ''AccountInUse''))\<rparr>"

text \<open>An extractor that asks for an address, and one that found none.\<close>

definition unsure_env :: env where
  "unsure_env =
     stub_env\<lparr>parser_parse :=
       (\<lambda>text. Inr \<lparr>action = ''request_address'', publicKey = system_program,
                     needsAddress = ''true''\<rparr>)\<rparr>"

definition none_env :: env where
  "none_env =
     stub_env\<lparr>parser_parse :=
       (\<lambda>text. Inr \<lparr>action = ''get_balance'', publicKey = ''none'',
                     needsAddress = ''false''\<rparr>)\<rparr>"

text \<open>An extractor whose completion stays unparseable after the repair.\<close>

definition garbled_env :: env where
  "garbled_env =
     stub_env\<lparr>repair_invoke := (\<lambda>tr text error. Inr ''still raw'')\<rparr>"


section \<open>Properties of the Address Validator\<close>

lemma matches_repeat_iff:
  "matches_repeat cls lo hi s = (lo \<le> length s \<and> length s \<le> hi \<and> list_all (in_class cls) s)"
proof (induction s arbitrary: lo hi)
  case Nil
  show ?case by simp
next
  case (Cons c cs)
  have "(0 < hi \<and> lo - 1 \<le> length cs \<and> length cs \<le> hi - 1)
      = (lo \<le> Suc (length cs) \<and> Suc (length cs) \<le> hi)"
    by arith
  with Cons.IH [of "lo - 1" "hi - 1"] show ?case
    by auto
qed


lemma base58_alphabet_eq:
  "base58_alphabet = ''123456789ABCDEFGHJKLMNPQRSTUVWXYZabcdefghijkmnopqrstuvwxyz''"
  by (simp add: base58_alphabet_def alphanumerics_def)

lemma alphabet_codes:
  "map of_char base58_alphabet =
     ([49..<58] @ [65..<73] @ [74..<79] @ [80..<91] @ [97..<108] @ [109..<123] :: nat list)"
  unfolding base58_alphabet_eq by (simp add: upt_rec)

lemma mem_codes: "(c \<in> set xs) = ((of_char c :: nat) \<in> set (map of_char xs))"
  by (induction xs) auto

lemma in_alphabet_iff:
  "(c \<in> set base58_alphabet) =
     (let n = (of_char c :: nat) in
      49 \<le> n \<and> n \<le> 57 \<or> 65 \<le> n \<and> n \<le> 72 \<or> 74 \<le> n \<and> n \<le> 78 \<or>
      80 \<le> n \<and> n \<le> 90 \<or> 97 \<le> n \<and> n \<le> 107 \<or> 109 \<le> n \<and> n \<le> 122)"
  apply (subst mem_codes)
  apply (subst alphabet_codes)
  apply (simp only: set_append set_upt Un_iff atLeastLessThan_iff Let_def)
  apply arith
  done

lemma in_address_class_iff: "in_class address_class c = (c \<in> set base58_alphabet)"
  unfolding in_alphabet_iff
  by (simp add: in_class_def address_class_def in_range_def Let_def)

text \<open>
  C2. For every string, the Address Validator answers true exactly when the string
  matches the pattern as the specification reads it: its length is between 32 and 44
  and each of its characters is in the base-58 alphabet. So it answers false for every
  string that is too short, too long or has a character outside the alphabet, and true
  for every string of a length in range drawn from the alphabet.
\<close>

theorem validator_iff_pattern:
  "isPotentiallySolanaAddress s = spec_valid_address s"
proof -
  have "in_class address_class = (\<lambda>c. c \<in> set base58_alphabet)"
    by (rule ext) (rule in_address_class_iff)
  then show ?thesis
    by (simp add: isPotentiallySolanaAddress_def spec_valid_address_def matches_repeat_iff)
qed

section \<open>Properties of the Retrying RPC Client\<close>

lemma failed_attempts_0: "failed_attempts pk 0 = []"
  by (simp add: failed_attempts_def)

lemma failed_attempts_Suc:
  "failed_attempts pk (Suc k) = failed_attempts pk k @ [RpcGetBalance pk, Delay 1000]"
  unfolding failed_attempts_def by (induction k) simp_all

lemma loop_returns:
  "i < n \<Longrightarrow> connection_getBalance E tr pk = Inr b \<Longrightarrow>
   getBalanceWithRetry_loop E pk n i tr = (Inr (JNum (of_int b)), tr @ [RpcGetBalance pk])"
  by (subst getBalanceWithRetry_loop.simps) simp

lemma loop_throws:
  "i < n \<Longrightarrow> connection_getBalance E tr pk = Inl e \<Longrightarrow> i = n - 1 \<Longrightarrow>
   getBalanceWithRetry_loop E pk n i tr = (Inl e, tr @ [RpcGetBalance pk])"
  by (subst getBalanceWithRetry_loop.simps) simp

lemma loop_retries:
  "i < n \<Longrightarrow> connection_getBalance E tr pk = Inl e \<Longrightarrow> i \<noteq> n - 1 \<Longrightarrow>
   getBalanceWithRetry_loop E pk n i tr =
   getBalanceWithRetry_loop E pk n (Suc i) (tr @ [RpcGetBalance pk, Delay 1000])"
  by (subst getBalanceWithRetry_loop.simps) simp

lemma loop_fails_then_returns:
  assumes "i \<le> m" and "m < n"
    and "\<And>j. i \<le> j \<Longrightarrow> j < m \<Longrightarrow>
           connection_getBalance E (tr @ failed_attempts pk j) pk = Inl (errs j)"
    and "connection_getBalance E (tr @ failed_attempts pk m) pk = Inr b"
  shows "getBalanceWithRetry_loop E pk n i (tr @ failed_attempts pk i) =
           (Inr (JNum (of_int b)), tr @ failed_attempts pk m @ [RpcGetBalance pk])"
  using assms
proof (induction "m - i" arbitrary: i)
  case 0
  then have "i = m" by simp
  with 0 show ?case by (simp add: loop_returns)
next
  case (Suc d)
  then have lt: "i < m" and d: "d = m - Suc i" by simp_all
  have fail: "connection_getBalance E (tr @ failed_attempts pk i) pk = Inl (errs i)"
    using Suc.prems(3) [of i] lt by simp
  have "getBalanceWithRetry_loop E pk n i (tr @ failed_attempts pk i) =
        getBalanceWithRetry_loop E pk n (Suc i) (tr @ failed_attempts pk (Suc i))"
    using loop_retries [OF _ fail] lt Suc.prems(2) by (simp add: failed_attempts_Suc)
  also have "\<dots> = (Inr (JNum (of_int b)), tr @ failed_attempts pk m @ [RpcGetBalance pk])"
    using Suc.hyps(1) [OF d] lt Suc.prems by simp
  finally show ?case .
qed

lemma loop_always_fails:
  assumes "i < n"
    and "\<And>j. i \<le> j \<Longrightarrow> j < n \<Longrightarrow>
           connection_getBalance E (tr @ failed_attempts pk j) pk = Inl (errs j)"
  shows "getBalanceWithRetry_loop E pk n i (tr @ failed_attempts pk i) =
           (Inl (errs (n - 1)), tr @ failed_attempts pk (n - 1) @ [RpcGetBalance pk])"
  using assms
proof (induction "n - 1 - i" arbitrary: i)
  case 0
  then have "i = n - 1" by simp
  with 0 show ?case using loop_throws [of i n E "tr @ failed_attempts pk i" pk "errs i"]
    by simp
next
  case (Suc d)
  then have lt: "Suc i < n" and d: "d = n - 1 - Suc i" by simp_all
  have fail: "connection_getBalance E (tr @ failed_attempts pk i) pk = Inl (errs i)"
    using Suc.prems(2) [of i] lt by simp
  have "getBalanceWithRetry_loop E pk n i (tr @ failed_attempts pk i) =
        getBalanceWithRetry_loop E pk n (Suc i) (tr @ failed_attempts pk (Suc i))"
    using loop_retries [OF _ fail] lt by (simp add: failed_attempts_Suc)
  also have "\<dots> = (Inl (errs (n - 1)), tr @ failed_attempts pk (n - 1) @ [RpcGetBalance pk])"
    using Suc.hyps(1) [OF d] lt Suc.prems by simp
  finally show ?case .
qed

text \<open>
  With the default of five attempts the loop never ends without returning or throwing:
  what it returns is the integer of a balance read, never \<^verbatim>\<open>undefined\<close>.
\<close>

lemma loop_returns_integer:
  "i < n \<Longrightarrow> getBalanceWithRetry_loop E pk n i tr = (Inr v, tr') \<Longrightarrow>
   \<exists>b. v = JNum (of_int b)"
proof (induction E pk n i tr rule: getBalanceWithRetry_loop.induct)
  case (1 E pk maxRetries i tr)
  show ?case
  proof (cases "connection_getBalance E tr pk")
    case (Inr b)
    with "1.prems" show ?thesis by (auto simp: loop_returns)
  next
    case (Inl e)
    show ?thesis
    proof (cases "i = maxRetries - 1")
      case True
      with Inl "1.prems" show ?thesis by (simp add: loop_throws)
    next
      case False
      with Inl "1.prems" have "Suc i < maxRetries"
        and "getBalanceWithRetry_loop E pk maxRetries (i + 1)
               (tr @ [RpcGetBalance pk, Delay 1000]) = (Inr v, tr')"
        by (simp_all add: loop_retries)
      with "1.IH" [OF "1.prems"(1) Inl False] show ?thesis by simp
    qed
  qed
qed

lemma getBalanceWithRetry_returns_integer:
  "getBalanceWithRetry E pk tr = (Inr v, tr') \<Longrightarrow> \<exists>b. v = JNum (of_int b)"
  unfolding getBalanceWithRetry_def by (rule loop_returns_integer [of 0 5]) simp_all

lemma failed_attempts_4:
  "failed_attempts pk 4 =
     [RpcGetBalance pk, Delay 1000, RpcGetBalance pk, Delay 1000,
      RpcGetBalance pk, Delay 1000, RpcGetBalance pk, Delay 1000]"
  by (simp add: failed_attempts_def numeral_eq_Suc)


lemma length_failed_attempts: "length (failed_attempts pk k) = 2 * k"
  by (induction k) (simp_all add: failed_attempts_0 failed_attempts_Suc)

lemma getBalance_count_failed_attempts:
  "length (filter is_getBalance (failed_attempts pk k)) = k"
  by (induction k) (simp_all add: failed_attempts_0 failed_attempts_Suc)

text \<open>
  C3. When the balance read fails on each of the five attempts, the Retrying RPC Client
  makes exactly five attempts, with a wait of one second after each of the first four,
  and then throws the error of the fifth attempt as it is.
\<close>

theorem retry_exhausted_after_five_attempts:
  assumes "\<And>j. j < 5 \<Longrightarrow>
             connection_getBalance E (tr @ failed_attempts pk j) pk = Inl (errs j)"
  shows "getBalanceWithRetry E pk tr =
           (Inl (errs 4),
            tr @ [RpcGetBalance pk, Delay 1000, RpcGetBalance pk, Delay 1000,
                  RpcGetBalance pk, Delay 1000, RpcGetBalance pk, Delay 1000,
                  RpcGetBalance pk])
         \<and> length (filter is_getBalance (drop (length tr) (snd (getBalanceWithRetry E pk tr)))) = 5"
proof -
  have "getBalanceWithRetry_loop E pk 5 0 (tr @ failed_attempts pk 0) =
          (Inl (errs (5 - 1)), tr @ failed_attempts pk (5 - 1) @ [RpcGetBalance pk])"
    by (rule loop_always_fails) (simp_all add: assms)
  then have "getBalanceWithRetry E pk tr =
          (Inl (errs 4), tr @ failed_attempts pk 4 @ [RpcGetBalance pk])"
    by (simp add: getBalanceWithRetry_def failed_attempts_0)
  then show ?thesis
    by (simp add: failed_attempts_4)
qed

theorem retry_exhausted_after_five_attempts_witness:
  "list_all
     (\<lambda>j. connection_getBalance down_env (failed_attempts (PubKey system_program) j)
            (PubKey system_program)
          = Inl (new_Error (if j = 4 then ''fifth'' else ''earlier'')))
     [0, 1, 2, 3, 4]
   \<and> fst (getBalanceWithRetry down_env (PubKey system_program) []) = Inl (new_Error ''fifth'')
   \<and> length (filter is_getBalance
        (snd (getBalanceWithRetry down_env (PubKey system_program) []))) = 5"
proof -
  have h: "\<And>j. j < 5 \<Longrightarrow>
      connection_getBalance down_env ([] @ failed_attempts (PubKey system_program) j)
        (PubKey system_program)
      = Inl (new_Error (if j = 4 then ''fifth'' else ''earlier''))"
    by (simp add: down_env_def length_failed_attempts)
  show ?thesis
    using h retry_exhausted_after_five_attempts
      [where E = down_env and tr = "[]" and pk = "PubKey system_program"
         and errs = "\<lambda>j. new_Error (if j = 4 then ''fifth'' else ''earlier'')", OF h]
    by simp
qed

text \<open>
  C4. When the balance read fails on the first four attempts and succeeds on the fifth,
  the Retrying RPC Client returns the value of the fifth attempt, after exactly four
  waits of one second, one after each failure.
\<close>

theorem retry_returns_on_fifth_attempt:
  assumes "\<And>j. j < 4 \<Longrightarrow>
             connection_getBalance E (tr @ failed_attempts pk j) pk = Inl (errs j)"
    and "connection_getBalance E (tr @ failed_attempts pk 4) pk = Inr v"
  shows "getBalanceWithRetry E pk tr =
           (Inr (JNum (of_int v)),
            tr @ [RpcGetBalance pk, Delay 1000, RpcGetBalance pk, Delay 1000,
                  RpcGetBalance pk, Delay 1000, RpcGetBalance pk, Delay 1000,
                  RpcGetBalance pk])
         \<and> delays (drop (length tr) (snd (getBalanceWithRetry E pk tr))) =
             [1000, 1000, 1000, 1000]"
proof -
  have "getBalanceWithRetry_loop E pk 5 0 (tr @ failed_attempts pk 0) =
          (Inr (JNum (of_int v)), tr @ failed_attempts pk 4 @ [RpcGetBalance pk])"
    by (rule loop_fails_then_returns [where errs = errs]) (simp_all add: assms)
  then have "getBalanceWithRetry E pk tr =
          (Inr (JNum (of_int v)), tr @ failed_attempts pk 4 @ [RpcGetBalance pk])"
    by (simp add: getBalanceWithRetry_def failed_attempts_0)
  then show ?thesis
    by (simp add: failed_attempts_4)
qed

theorem retry_returns_on_fifth_attempt_witness:
  "list_all
     (\<lambda>j. connection_getBalance flaky_env (failed_attempts (PubKey system_program) j)
            (PubKey system_program) = Inl (new_Error ''timeout''))
     [0, 1, 2, 3]
   \<and> connection_getBalance flaky_env (failed_attempts (PubKey system_program) 4)
        (PubKey system_program) = Inr 42
   \<and> fst (getBalanceWithRetry flaky_env (PubKey system_program) []) = Inr (JNum 42)
   \<and> delays (snd (getBalanceWithRetry flaky_env (PubKey system_program) []))
        = [1000, 1000, 1000, 1000]"
proof -
  have h: "\<And>j. j < 4 \<Longrightarrow>
      connection_getBalance flaky_env ([] @ failed_attempts (PubKey system_program) j)
        (PubKey system_program) = Inl (new_Error ''timeout'')"
    by (simp add: flaky_env_def getBalance_count_failed_attempts)
  have v: "connection_getBalance flaky_env ([] @ failed_attempts (PubKey system_program) 4)
        (PubKey system_program) = Inr 42"
    by (simp add: flaky_env_def getBalance_count_failed_attempts)
  show ?thesis
    using h v retry_returns_on_fifth_attempt
      [where E = flaky_env and tr = "[]" and pk = "PubKey system_program"
         and errs = "\<lambda>j. new_Error ''timeout''" and v = 42, OF h v]
    by simp
qed

section \<open>Properties of the airdrop endpoint\<close>

text \<open>
  C10. An airdrop request whose amount is 0, or whose publicKey is the empty string, is
  answered 400 with the error "Missing required parameters", whatever the outside world
  is, and the trace is left as it was: no public key has been built, no balance read and
  no airdrop requested.
\<close>

theorem airdrop_rejects_missing_parameters:
  "pubKey = JStr [] \<or> amount = JNum 0 \<Longrightarrow>
   wallet_airdrop E pubKey amount tr =
     (Response 400 [(''error'', JStr ''Missing required parameters''),
                    (''details'', JStr ''Both publicKey and amount are required'')], tr)"
  by (auto simp: wallet_airdrop_def missing_parameters_def)

theorem airdrop_rejects_missing_parameters_witness:
  "wallet_airdrop stub_env (JStr system_program) (JNum 0) [] =
     (Response 400 [(''error'', JStr ''Missing required parameters''),
                    (''details'', JStr ''Both publicKey and amount are required'')], [])"
  using airdrop_rejects_missing_parameters
    [where pubKey = "JStr system_program" and amount = "JNum 0" and E = stub_env and tr = "[]"]
  by simp

lemma stub_read_empty:
  "getBalanceWithRetry stub_env pk [] = (Inr (JNum 0), [RpcGetBalance pk])"
  using loop_returns [of 0 5 stub_env "[]" pk 0]
  by (simp add: getBalanceWithRetry_def stub_env_def)

lemma stub_read_settled:
  "getBalanceWithRetry stub_env pk
     [RpcGetBalance pk, RpcRequestAirdrop pk l, RpcConfirmTransaction s, Delay 2000]
   = (Inr (JNum 1000000000),
      [RpcGetBalance pk, RpcRequestAirdrop pk l, RpcConfirmTransaction s, Delay 2000,
       RpcGetBalance pk])"
  using loop_returns [of 0 5 stub_env
    "[RpcGetBalance pk, RpcRequestAirdrop pk l, RpcConfirmTransaction s, Delay 2000]"
    pk 1000000000]
  by (simp add: getBalanceWithRetry_def stub_env_def)

lemma rejecting_read_empty:
  "getBalanceWithRetry rejecting_env pk [] = (Inr (JNum 0), [RpcGetBalance pk])"
  using loop_returns [of 0 5 rejecting_env "[]" pk 0]
  by (simp add: getBalanceWithRetry_def rejecting_env_def stub_env_def)

text \<open>
  C5. In an airdrop run that reaches the confirmation, when the confirmation carries a
  transaction-level error (a truthy \<^verbatim>\<open>value.err\<close>, as every error object is), the
  handler answers 500 "Airdrop failed" with the error embedded in the details, and the
  trace ends with the confirmation call: the wait of two seconds and the second balance
  read never happen, and no airdrop result is composed.
\<close>

theorem airdrop_aborts_on_transaction_error:
  assumes "js_truthy pubKey" and "js_truthy amount"
    and "PublicKey_new E pubKey = Inr address"
    and "lamports = js_mul E amount (JNum LAMPORTS_PER_SOL)"
    and "getBalanceWithRetry E address tr = (Inr initialBalance, tr_read)"
    and "connection_requestAirdrop E tr_read address lamports = Inr signature"
    and "connection_confirmTransaction E (tr_read @ [RpcRequestAirdrop address lamports]) signature
           = Inr err"
    and "js_truthy err"
  shows "wallet_airdrop E pubKey amount tr =
     (Response 500
        [(''error'', JStr ''Airdrop failed''),
         (''details'',
          JStr (''Transaction confirmation failed: Transaction failed: '' @ JSON_stringify E err))],
      tr_read @ [RpcRequestAirdrop address lamports, RpcConfirmTransaction signature])"
  using assms
  by (simp add: wallet_airdrop_def confirm_step_def airdrop_failed_def new_Error_def)

theorem airdrop_aborts_on_transaction_error_witness:
  "wallet_airdrop rejecting_env (JStr system_program) (JNum 1) [] =
     (Response 500
        [(''error'', JStr ''Airdrop failed''),
         (''details'',
          JStr ''Transaction confirmation failed: Transaction failed: AccountInUse'')],
      [RpcGetBalance (PubKey system_program),
       RpcRequestAirdrop (PubKey system_program) (JNum 1000000000),
       RpcConfirmTransaction ''sig1''])"
proof -
  have l: "JNum 1000000000 = js_mul rejecting_env (JNum 1) (JNum LAMPORTS_PER_SOL)"
    by (simp add: js_mul_def LAMPORTS_PER_SOL_def rejecting_env_def stub_env_def)
  show ?thesis
    using airdrop_aborts_on_transaction_error
      [where E = rejecting_env and pubKey = "JStr system_program" and amount = "JNum 1"
         and address = "PubKey system_program" and lamports = "JNum 1000000000"
         and tr = "[]" and initialBalance = "JNum 0"
         and tr_read = "[RpcGetBalance (PubKey system_program)]"
         and signature = "''sig1''" and err = "JStr ''AccountInUse''",
       OF _ _ _ l rejecting_read_empty]
    by (simp add: rejecting_env_def stub_env_def system_program_def)
qed

text \<open>
  Integers up to \<open>2^53 = 9007199254740992\<close> in absolute value are doubles, so rounding
  leaves them as they are. Under that property of the rounding, the difference of two
  balances in that range is exact, and the conversion of such an integer to units is
  one rounded division.
\<close>

lemma lamportsToSol_integer:
  assumes exact: "\<And>n. \<bar>n\<bar> \<le> 9007199254740992 \<Longrightarrow> to_double E (of_int n) = of_int n"
    and "\<bar>n\<bar> \<le> 9007199254740992"
  shows "lamportsToSol E (JNum (of_int n)) = JNum (to_double E (of_int n / 1000000000))"
proof -
  have "to_double E (of_int 1000000000) = of_int 1000000000"
    by (rule exact) simp
  then have "to_double E 1000000000 = 1000000000" by simp
  with exact [OF assms(2)] show ?thesis
    by (simp add: lamportsToSol_def js_div_def LAMPORTS_PER_SOL_def)
qed

lemma js_sub_integers:
  assumes exact: "\<And>n. \<bar>n\<bar> \<le> 9007199254740992 \<Longrightarrow> to_double E (of_int n) = of_int n"
    and "0 \<le> a" "a \<le> 9007199254740992" "0 \<le> b" "b \<le> 9007199254740992"
  shows "js_sub E (JNum (of_int a)) (JNum (of_int b)) = JNum (of_int (a - b))"
proof -
  have bounds: "\<bar>a\<bar> \<le> 9007199254740992" "\<bar>b\<bar> \<le> 9007199254740992"
    "\<bar>a - b\<bar> \<le> 9007199254740992"
    using assms(2-) by simp_all
  have "to_double E (of_int a) = of_int a" "to_double E (of_int b) = of_int b"
    "to_double E (of_int (a - b)) = of_int (a - b)"
    by (rule exact [OF bounds(1)], rule exact [OF bounds(2)], rule exact [OF bounds(3)])
  then show ?thesis
    by (simp add: js_sub_def del: of_int_diff) simp
qed

text \<open>
  C6. In an airdrop run where the initial read gives \<open>initial\<close> lamports, the airdrop
  is submitted and confirmed without error and the read after the wait gives
  \<open>settled\<close> lamports (both between 0 and \<open>2^53\<close>, where the numbers the handler holds
  are the balances themselves), the handler answers with the full result: its change is
  \<open>settled - initial\<close> lamports, converted to units by the double division by
  \<open>10^9\<close>, and its status is "confirmed". When the balance has grown by \<open>10^9\<close>
  lamports, one unit, the change is exactly 1.
\<close>

theorem airdrop_delta_and_status:
  assumes "js_truthy pubKey" and "js_truthy amount"
    and "PublicKey_new E pubKey = Inr address"
    and "lamports = js_mul E amount (JNum LAMPORTS_PER_SOL)"
    and "\<And>n. \<bar>n\<bar> \<le> 9007199254740992 \<Longrightarrow> to_double E (of_int n) = of_int n"
    and "0 \<le> initial" and "initial \<le> 9007199254740992"
    and "0 \<le> settled" and "settled \<le> 9007199254740992"
    and "getBalanceWithRetry E address tr = (Inr (JNum (of_int initial)), tr_read)"
    and "connection_requestAirdrop E tr_read address lamports = Inr signature"
    and "connection_confirmTransaction E (tr_read @ [RpcRequestAirdrop address lamports]) signature
           = Inr err"
    and "\<not> js_truthy err"
    and "getBalanceWithRetry E address
           (tr_read @ [RpcRequestAirdrop address lamports, RpcConfirmTransaction signature,
                   Delay 2000])
           = (Inr (JNum (of_int settled)), tr_end)"
  shows "wallet_airdrop E pubKey amount tr =
     (Response 200
        [(''publicKey'', JStr (pk_toString address)),
         (''signature'', JStr signature),
         (''requestedAmount'', amount),
         (''initialBalanceSOL'', JNum (to_double E (of_int initial / 1000000000))),
         (''newBalanceSOL'', JNum (to_double E (of_int settled / 1000000000))),
         (''actualChangeSOL'', JNum (to_double E (of_int (settled - initial) / 1000000000))),
         (''message'', JStr ''Airdrop successful''),
         (''status'', JStr ''confirmed'')],
      tr_end)
   \<and> (settled - initial = 1000000000 \<longrightarrow>
        map_of (body (fst (wallet_airdrop E pubKey amount tr))) ''actualChangeSOL''
          = Some (JNum 1))"
proof -
  note exact = assms(5)
  have d: "\<bar>settled - initial\<bar> \<le> 9007199254740992"
    using assms(6-9) by simp
  have sub: "js_sub E (JNum (of_int settled)) (JNum (of_int initial))
      = JNum (of_int (settled - initial))"
    using exact assms(6-9) by (intro js_sub_integers) simp_all
  have sol: "lamportsToSol E (JNum (of_int n)) = JNum (to_double E (of_int n / 1000000000))"
    if "\<bar>n\<bar> \<le> 9007199254740992" for n
    using exact that by (rule lamportsToSol_integer)
  have i: "\<bar>initial\<bar> \<le> 9007199254740992" and s: "\<bar>settled\<bar> \<le> 9007199254740992"
    using assms(6-9) by simp_all
  have one: "to_double E 1 = 1"
    using exact [of 1] by simp
  have run: "wallet_airdrop E pubKey amount tr =
     (airdrop_success E address signature amount (JNum (of_int initial))
        (JNum (of_int settled)), tr_end)"
    using assms(1-4,10-14) by (simp add: wallet_airdrop_def confirm_step_def)
  have res: "airdrop_success E address signature amount (JNum (of_int initial))
        (JNum (of_int settled)) =
      Response 200
        [(''publicKey'', JStr (pk_toString address)),
         (''signature'', JStr signature),
         (''requestedAmount'', amount),
         (''initialBalanceSOL'', JNum (to_double E (of_int initial / 1000000000))),
         (''newBalanceSOL'', JNum (to_double E (of_int settled / 1000000000))),
         (''actualChangeSOL'', JNum (to_double E (of_int (settled - initial) / 1000000000))),
         (''message'', JStr ''Airdrop successful''),
         (''status'', JStr ''confirmed'')]"
    by (simp add: airdrop_success_def sub sol [OF i] sol [OF s] sol [OF d] del: of_int_diff)
  show ?thesis
    using one by (simp add: run res)
qed

theorem airdrop_delta_and_status_witness:
  "wallet_airdrop stub_env (JStr system_program) (JNum 1) [] =
     (Response 200
        [(''publicKey'', JStr system_program),
         (''signature'', JStr ''sig1''),
         (''requestedAmount'', JNum 1),
         (''initialBalanceSOL'', JNum 0),
         (''newBalanceSOL'', JNum 1),
         (''actualChangeSOL'', JNum 1),
         (''message'', JStr ''Airdrop successful''),
         (''status'', JStr ''confirmed'')],
      [RpcGetBalance (PubKey system_program),
       RpcRequestAirdrop (PubKey system_program) (JNum 1000000000),
       RpcConfirmTransaction ''sig1'', Delay 2000,
       RpcGetBalance (PubKey system_program)])"
proof -
  have l: "JNum 1000000000 = js_mul stub_env (JNum 1) (JNum LAMPORTS_PER_SOL)"
    by (simp add: js_mul_def LAMPORTS_PER_SOL_def stub_env_def)
  have exact: "\<And>n. \<bar>n\<bar> \<le> 9007199254740992 \<Longrightarrow> to_double stub_env (of_int n) = of_int n"
    by (simp add: stub_env_def)
  have r0: "getBalanceWithRetry stub_env (PubKey system_program) []
      = (Inr (JNum (of_int 0)), [RpcGetBalance (PubKey system_program)])"
    by (simp add: stub_read_empty)
  have r1: "getBalanceWithRetry stub_env (PubKey system_program)
      ([RpcGetBalance (PubKey system_program)] @
       [RpcRequestAirdrop (PubKey system_program) (JNum 1000000000),
        RpcConfirmTransaction ''sig1'', Delay 2000])
      = (Inr (JNum (of_int 1000000000)),
         [RpcGetBalance (PubKey system_program),
          RpcRequestAirdrop (PubKey system_program) (JNum 1000000000),
          RpcConfirmTransaction ''sig1'', Delay 2000,
          RpcGetBalance (PubKey system_program)])"
    by (simp add: stub_read_settled)
  show ?thesis
    using airdrop_delta_and_status
      [where E = stub_env and pubKey = "JStr system_program" and amount = "JNum 1"
         and address = "PubKey system_program" and lamports = "JNum 1000000000"
         and tr = "[]" and initial = 0 and settled = 1000000000
         and tr_read = "[RpcGetBalance (PubKey system_program)]"
         and signature = "''sig1''" and err = JNull,
       OF _ _ _ l exact _ _ _ _ r0 _ _ _ r1]
    by (simp add: stub_env_def system_program_def)
qed

section \<open>Properties of the natural-language balance flow\<close>

lemma rpc_calls_append: "rpc_calls (xs @ ys) = rpc_calls xs @ rpc_calls ys"
  by (simp add: rpc_calls_def)

lemma repairs_append: "repairs (xs @ ys) = repairs xs @ repairs ys"
  by (induction xs rule: repairs.induct) simp_all

lemma fixingParser_parse_rpc_calls:
  "rpc_calls (snd (fixingParser_parse E text tr)) = rpc_calls tr"
  by (simp add: fixingParser_parse_def rpc_calls_def split: sum.splits)

lemma extract_intent_rpc_calls:
  "rpc_calls (snd (extract_intent E query tr)) = rpc_calls tr"
  by (simp add: extract_intent_def fixingParser_parse_rpc_calls split: sum.splits)
     (simp add: rpc_calls_def)

lemma fixingParser_parse_repairs:
  "length (repairs (snd (fixingParser_parse E text tr))) \<le> Suc (length (repairs tr))"
  by (simp add: fixingParser_parse_def repairs_append split: sum.splits)

lemma extract_intent_repairs:
  "length (repairs (snd (extract_intent E query tr))) \<le> Suc (length (repairs tr))"
  using fixingParser_parse_repairs [of E _ "tr @ [LlmInvoke _]"]
  by (auto simp: extract_intent_def repairs_append split: sum.splits)

text \<open>
  C7, as stated, fails for the empty query: the handler answers an empty or absent
  query with 400 "Missing query parameter" before the Intent Extractor is asked, also
  when the extractor would return \<^verbatim>\<open>needsAddress = 'true'\<close> for it.
\<close>

theorem needs_address_not_for_empty_query:
  "fst (extract_intent unsure_env (JStr []) []) =
     Inr \<lparr>action = ''request_address'', publicKey = system_program, needsAddress = ''true''\<rparr>
   \<and> handleBalanceQuery unsure_env (JStr []) [] =
     (Response 400 [(''error'', JStr ''Missing query parameter''),
                    (''message'', JStr ''Please provide a natural language query'')], [])"
  by (simp add: extract_intent_def fixingParser_parse_def unsure_env_def stub_env_def
      handleBalanceQuery_def missing_query_def)

text \<open>
  C7, amended. For every non-empty query for which the Intent Extractor returns
  \<^verbatim>\<open>needsAddress = 'true'\<close>, the flow answers with the status "needs_address", and
  the trace holds the RPC calls it held before the request and no other.
\<close>

theorem needs_address_without_rpc:
  assumes "js_truthy query"
    and "extract_intent E query tr = (Inr parsedResponse, tr_parsed)"
    and "needsAddress parsedResponse = ''true''"
  shows "handleBalanceQuery E query tr =
     (Response 200
        [(''status'', JStr ''needs_address''),
         (''message'', JStr ''Please provide a Solana wallet address to check the balance'')],
      tr_parsed)
   \<and> rpc_calls tr_parsed = rpc_calls tr"
proof -
  have "rpc_calls (snd (extract_intent E query tr)) = rpc_calls tr"
    by (rule extract_intent_rpc_calls)
  with assms show ?thesis
    by (simp add: handleBalanceQuery_def dispatch_intent_def needs_address_def)
qed

theorem needs_address_without_rpc_witness:
  "handleBalanceQuery unsure_env (JStr ''What is my balance?'') [] =
     (Response 200
        [(''status'', JStr ''needs_address''),
         (''message'', JStr ''Please provide a Solana wallet address to check the balance'')],
      [LlmInvoke ''prompt''])
   \<and> rpc_calls [LlmInvoke ''prompt''] = rpc_calls []"
proof -
  have x: "extract_intent unsure_env (JStr ''What is my balance?'') [] =
      (Inr \<lparr>action = ''request_address'', publicKey = system_program, needsAddress = ''true''\<rparr>,
       [LlmInvoke ''prompt''])"
    by (simp add: extract_intent_def fixingParser_parse_def unsure_env_def stub_env_def)
  show ?thesis
    using needs_address_without_rpc [where E = unsure_env and tr = "[]", OF _ x]
    by simp
qed

text \<open>
  C9. For every parsed intent whose \<^verbatim>\<open>publicKey\<close> is the text \<^verbatim>\<open>none\<close>,
  whatever its \<^verbatim>\<open>needsAddress\<close>, the flow answers with the status "needs_address"
  and leaves the trace as it was, so no RPC call is made. The answer is not the
  validator's: the text \<^verbatim>\<open>none\<close> fails the pattern, and a validated intent would
  have been answered "Invalid address format".
\<close>

theorem none_address_short_circuits:
  assumes "publicKey parsedResponse = ''none''"
  shows "dispatch_intent E parsedResponse tr =
     (Response 200
        [(''status'', JStr ''needs_address''),
         (''message'', JStr ''Please provide a Solana wallet address to check the balance'')],
      tr)
   \<and> \<not> isPotentiallySolanaAddress (publicKey parsedResponse)"
  using assms
  by (simp add: dispatch_intent_def needs_address_def isPotentiallySolanaAddress_def
      matches_repeat_iff)

theorem none_address_short_circuits_witness:
  "dispatch_intent stub_env
     \<lparr>action = ''get_balance'', publicKey = ''none'', needsAddress = ''false''\<rparr> [] =
     (Response 200
        [(''status'', JStr ''needs_address''),
         (''message'', JStr ''Please provide a Solana wallet address to check the balance'')],
      [])
   \<and> handleBalanceQuery none_env (JStr ''balance please'') [] =
     (Response 200
        [(''status'', JStr ''needs_address''),
         (''message'', JStr ''Please provide a Solana wallet address to check the balance'')],
      [LlmInvoke ''prompt''])"
proof -
  have x: "extract_intent none_env (JStr ''balance please'') [] =
      (Inr \<lparr>action = ''get_balance'', publicKey = ''none'', needsAddress = ''false''\<rparr>,
       [LlmInvoke ''prompt''])"
    by (simp add: extract_intent_def fixingParser_parse_def none_env_def stub_env_def)
  show ?thesis
    using none_address_short_circuits
      [where parsedResponse =
         "\<lparr>action = ''get_balance'', publicKey = ''none'', needsAddress = ''false''\<rparr>"]
    by (simp add: handleBalanceQuery_def x)
qed

text \<open>
  C8. The Intent Extractor asks for at most one repair in a run. When the first parse
  fails, the malformed text is resubmitted once; when the parse of the repaired text
  fails too, the extractor throws that parse error after exactly one completion and one
  repair, and the handler answers 500 "Processing failed".
\<close>

theorem intent_extractor_single_repair:
  "length (repairs (snd (extract_intent E query tr))) \<le> Suc (length (repairs tr))
   \<and> (js_truthy query \<longrightarrow>
      promptTemplate_format E query = Inr prompt \<longrightarrow>
      model_invoke E tr prompt = Inr completion \<longrightarrow>
      parser_parse E completion = Inl parseError \<longrightarrow>
      repair_invoke E (tr @ [LlmInvoke prompt]) completion parseError = Inr newText \<longrightarrow>
      parser_parse E newText = Inl error \<longrightarrow>
        extract_intent E query tr = (Inl error, tr @ [LlmInvoke prompt, LlmRepair completion])
        \<and> handleBalanceQuery E query tr =
            (Response 500 [(''error'', JStr ''Processing failed''),
                           (''message'', JStr (message error))],
             tr @ [LlmInvoke prompt, LlmRepair completion]))"
proof -
  have bound: "length (repairs (snd (extract_intent E query tr))) \<le> Suc (length (repairs tr))"
    by (rule extract_intent_repairs)
  have fails: "extract_intent E query tr = (Inl error, tr @ [LlmInvoke prompt, LlmRepair completion])"
    if "promptTemplate_format E query = Inr prompt" "model_invoke E tr prompt = Inr completion"
       "parser_parse E completion = Inl parseError"
       "repair_invoke E (tr @ [LlmInvoke prompt]) completion parseError = Inr newText"
       "parser_parse E newText = Inl error"
    using that by (simp add: extract_intent_def fixingParser_parse_def)
  show ?thesis
    using bound fails
    by (simp add: handleBalanceQuery_def processing_failed_def)
qed

theorem intent_extractor_single_repair_witness:
  "extract_intent garbled_env (JStr ''balance please'') [] =
     (Inl (new_Error ''Failed to parse''), [LlmInvoke ''prompt'', LlmRepair ''raw''])
   \<and> handleBalanceQuery garbled_env (JStr ''balance please'') [] =
     (Response 500 [(''error'', JStr ''Processing failed''),
                    (''message'', JStr ''Failed to parse'')],
      [LlmInvoke ''prompt'', LlmRepair ''raw''])"
  using intent_extractor_single_repair
    [where E = garbled_env and query = "JStr ''balance please''" and tr = "[]"
       and prompt = "''prompt''" and completion = "''raw''"
       and parseError = "new_Error ''Failed to parse''" and newText = "''still raw''"
       and error = "new_Error ''Failed to parse''"]
  by (simp add: garbled_env_def stub_env_def new_Error_def)

section \<open>Address checks before RPC calls\<close>







end
